theory Spec2Isabelle
  imports Complex_Main
begin

section \<open>Errors\<close>

text \<open>
  The Python exceptions raised by the modelled code. Each carries the constant part of
  its message; the formatted values that the source interpolates into a message
  (a set of names, a number) are not part of the model.
\<close>

datatype error = NotImplementedError string | ValueError string

section \<open>Optimization configs\<close>

text \<open>
  Only what \<open>benchmark_problem.py\<close> and \<open>benchmark_method.py\<close> read of an optimization
  config: its class (\<open>MultiObjectiveOptimizationConfig\<close> or plain \<open>OptimizationConfig\<close>),
  its objective (an \<open>Objective\<close> on one metric, or a \<open>MultiObjective\<close> whose
  \<open>objectives\<close> are single objectives, each given here by its metric), and the metrics of
  its outcome constraints. A metric is known by its name.
\<close>

datatype metric = Metric (metric_name: string)

datatype objective =
    Objective (objective_metric: metric)
  | MultiObjective (objectives: "metric list")

datatype outcome_constraint = OutcomeConstraint (constraint_metric: metric)

datatype config_class = OptimizationConfig | MultiObjectiveOptimizationConfig

record optimization_config =
  config_class :: config_class
  objective :: objective
  outcome_constraints :: "outcome_constraint list"

section \<open>BenchmarkProblem\<close>

text \<open>
  A search-space parameter, as \<open>__post_init__\<close> reads it: its class, its name, the flags
  \<open>is_fidelity\<close> and (on a \<open>ChoiceParameter\<close> only) \<open>is_task\<close>, and its target value.
\<close>

datatype 'v parameter =
    RangeParameter (parameter_name: string) (is_fidelity: bool) (target_value: 'v)
  | ChoiceParameter (parameter_name: string) (is_fidelity: bool) (is_task: bool)
      (target_value: 'v)
  | FixedParameter (parameter_name: string) (is_fidelity: bool) (target_value: 'v)

record test_function =
  outcome_names :: "string list"

text \<open>
  The fields of the dataclass that \<open>__post_init__\<close> reads or writes, and \<open>name\<close> and
  \<open>num_trials\<close>. \<open>search_space\<close> is the list of \<open>search_space.parameters.values()\<close>.
  The remaining fields (\<open>noise_std\<close>, \<open>optimal_value\<close>, \<open>trial_runtime_func\<close>) are not
  touched by the construction and live in the record's extension.
\<close>

record 'v BenchmarkProblem =
  problem_name :: string
  optimization_config :: optimization_config
  num_trials :: int
  test_function :: test_function
  search_space :: "'v parameter list"
  report_inference_value_as_trace :: bool
  n_best_points :: int
  target_fidelity_and_task :: "string \<rightharpoonup> 'v"

definition is_moo :: "('v, 'x) BenchmarkProblem_scheme \<Rightarrow> bool" where
  "is_moo p = (config_class (optimization_config p) = MultiObjectiveOptimizationConfig)"

definition objective_names :: "objective \<Rightarrow> string set" where
  "objective_names obj =
     (case obj of
        MultiObjective objs \<Rightarrow> set (map metric_name objs)
      | Objective m \<Rightarrow> {metric_name m})"

definition constraint_names :: "outcome_constraint list \<Rightarrow> string set" where
  "constraint_names constraints = set (map (metric_name \<circ> constraint_metric) constraints)"

definition is_task_or_fidelity :: "'v parameter \<Rightarrow> bool" where
  "is_task_or_fidelity p =
     ((case p of ChoiceParameter _ _ t _ \<Rightarrow> t | _ \<Rightarrow> False) \<or> is_fidelity p)"

definition target_values :: "'v parameter list \<Rightarrow> (string \<rightharpoonup> 'v)" where
  "target_values ps =
     foldl (\<lambda>m p. m(parameter_name p \<mapsto> target_value p)) Map.empty
       (filter is_task_or_fidelity ps)"

definition BenchmarkProblem_post_init :: "('v, 'x) BenchmarkProblem_scheme \<Rightarrow> error + ('v, 'x) BenchmarkProblem_scheme" where
  "BenchmarkProblem_post_init p =
     (if n_best_points p \<noteq> 1 then
        Inl (NotImplementedError ''Only `n_best_points=1` is currently supported.'')
      else if report_inference_value_as_trace p \<and> is_moo p then
        Inl (NotImplementedError
          ''Inference trace is not supported for MOO. Please set `report_inference_value_as_trace` to False.'')
      else
        let test_function_names = set (outcome_names (test_function p));
            missing = objective_names (objective (optimization_config p)) - test_function_names
        in if missing \<noteq> {} then
             Inl (ValueError
               ''The following objectives are defined on `optimization_config` but not included in `runner.test_function.outcome_names`'')
           else
             let missing = constraint_names (outcome_constraints (optimization_config p))
                             - test_function_names
             in if missing \<noteq> {} then
                  Inl (ValueError
                    ''The following constraints are defined on `optimization_config` but not included in `runner.test_function.outcome_names`'')
                else
                  Inr (p\<lparr>target_fidelity_and_task := target_values (search_space p)\<rparr>))"

text \<open>
  The condition of the last two checks of \<open>__post_init__\<close> taken together: every metric
  name of the objective and of the outcome constraints is among the test function's
  \<open>outcome_names\<close>.
\<close>

definition names_produced :: "('v, 'x) BenchmarkProblem_scheme \<Rightarrow> bool" where
  "names_produced p =
     (objective_names (objective (optimization_config p)) \<union>
      constraint_names (outcome_constraints (optimization_config p))
        \<subseteq> set (outcome_names (test_function p)))"

section \<open>BenchmarkMethod\<close>

text \<open>
  An early-stopping strategy, as \<open>BenchmarkMethod\<close> reads and writes it, and a generation
  strategy, of which only the name is read.
\<close>

record early_stopping_strategy =
  seconds_between_polls :: int

record generation_strategy =
  generation_strategy_name :: string

datatype TrialType = TRIAL | BATCH_TRIAL

text \<open>The keyword arguments that \<open>scheduler_options\<close> passes to \<open>SchedulerOptions\<close>.\<close>

record SchedulerOptions =
  so_max_pending_trials :: int
  so_init_seconds_between_polls :: int
  so_min_seconds_before_poll :: int
  so_trial_type :: TrialType
  so_batch_size :: int
  so_run_trials_in_batches :: bool
  so_early_stopping_strategy :: "early_stopping_strategy option"

text \<open>
  The dataclass \<open>BenchmarkMethod\<close>. \<open>timeout_hours\<close>, a float that none of the modelled
  methods reads, lives in the record's extension.
\<close>

record BenchmarkMethod =
  method_name :: string
  generation_strategy :: generation_strategy
  batch_size :: int
  distribute_replications :: bool
  use_model_predictions_for_best_point :: bool
  run_trials_in_batches :: bool
  max_pending_trials :: int
  early_stopping_strategy :: "early_stopping_strategy option"

text \<open>
  The warning of \<open>__post_init__\<close>, with the number of seconds it reports.
\<close>

datatype warning = SecondsBetweenPollsWarning int

text \<open>
  \<open>__post_init__\<close> mutates the method and, through the shared reference, the strategy
  object; the model returns the method holding the updated strategy, and the warnings
  emitted.
\<close>

definition BenchmarkMethod_post_init ::
  "'x BenchmarkMethod_scheme \<Rightarrow> 'x BenchmarkMethod_scheme \<times> warning list" where
  "BenchmarkMethod_post_init m =
     (let m1 = (if method_name m = ''DEFAULT''
                then m\<lparr>method_name := generation_strategy_name (generation_strategy m)\<rparr>
                else m)
      in case early_stopping_strategy m1 of
           None \<Rightarrow> (m1, [])
         | Some ess \<Rightarrow>
             if seconds_between_polls ess > 0 then
               (m1\<lparr>early_stopping_strategy := Some (ess\<lparr>seconds_between_polls := 0\<rparr>)\<rparr>,
                [SecondsBetweenPollsWarning (seconds_between_polls ess)])
             else (m1, []))"

definition scheduler_options :: "'x BenchmarkMethod_scheme \<Rightarrow> SchedulerOptions" where
  "scheduler_options m =
     \<lparr>so_max_pending_trials = max_pending_trials m,
      so_init_seconds_between_polls = 0,
      so_min_seconds_before_poll = 0,
      so_trial_type = (if batch_size m = 1 then TRIAL else BATCH_TRIAL),
      so_batch_size = batch_size m,
      so_run_trials_in_batches = run_trials_in_batches m,
      so_early_stopping_strategy = early_stopping_strategy m\<rparr>"

text \<open>
  \<open>get_best_parameters\<close>. The call \<open>BestPointMixin._get_best_trial(experiment,
  generation_strategy, optimization_config, use_model_predictions)\<close> goes to code outside
  these sources, so the function is the parameter \<open>get_best_trial\<close>: it returns \<open>None\<close> or
  a triple of trial index, parameterization and prediction.
\<close>

definition get_best_parameters ::
  "('e \<Rightarrow> generation_strategy \<Rightarrow> 'c optimization_config_scheme \<Rightarrow> bool \<Rightarrow> (int \<times> 'p \<times> 'q) option)
     \<Rightarrow> 'x BenchmarkMethod_scheme \<Rightarrow> 'e \<Rightarrow> 'c optimization_config_scheme \<Rightarrow> int
     \<Rightarrow> error + 'p list" where
  "get_best_parameters get_best_trial m experiment cfg n_points =
     (if config_class cfg = MultiObjectiveOptimizationConfig then
        Inl (NotImplementedError
          ''BenchmarkMethod.get_pareto_optimal_parameters is not currently supported for multi-objective problems.'')
      else if n_points \<noteq> 1 then
        Inl (NotImplementedError ''Currently only n_points=1 is supported.'')
      else
        case get_best_trial experiment (generation_strategy m) cfg
               (use_model_predictions_for_best_point m) of
          None \<Rightarrow> Inr []
        | Some (i, params, prediction) \<Rightarrow> Inr [params])"

section \<open>RandomModelBridge\<close>

text \<open>
  The two methods of \<open>RandomModelBridge\<close> that only raise. Their arguments are the
  observation features, and the search space, training data, test points and flag.
\<close>

definition predict :: "'f list \<Rightarrow> error + 'd list" where
  "predict observation_features =
     Inl (NotImplementedError ''RandomModelBridge does not support prediction.'')"

definition cross_validate :: "'s \<Rightarrow> 'o list \<Rightarrow> 'f list \<Rightarrow> bool \<Rightarrow> error + 'd list" where
  "cross_validate space cv_training_data cv_test_points use_posterior_predictive =
     Inl (NotImplementedError [])"

section \<open>BenchmarkResult and its aggregation\<close>

text \<open>
  The classes of \<open>ax/benchmark/benchmark_result.py\<close> are missing from the sources; only
  their test (\<open>test_benchmark.py\<close>) is there. The definitions of this section follow the
  spec. The traces hold floats, here values of any type \<open>'a\<close>.
\<close>

text \<open>
  Modelled from the spec: the fields of \<open>BenchmarkResult\<close> (the class is missing): name,
  seed, the four traces, \<open>fit_time\<close>, \<open>gen_time\<close>, and the attached experiment
  (\<open>result_experiment\<close>, the field \<open>experiment\<close>) or the storage reference string.
\<close>

record ('a, 'e) BenchmarkResult =
  result_name :: string
  seed :: int
  inference_trace :: "'a list"
  oracle_trace :: "'a list"
  optimization_trace :: "'a list"
  score_trace :: "'a list"
  fit_time :: 'a
  gen_time :: 'a
  result_experiment :: "'e option"
  experiment_storage_id :: "string option"

text \<open>
  Modelled from the spec: the construction check of \<open>BenchmarkResult\<close> (missing). The spec
  says that constructing one with both an experiment and a storage id, or with neither,
  raises a configuration error; \<open>test_benchmark_result_invalid_inputs\<close> expects a
  \<open>ValueError\<close> with these messages.
\<close>

definition BenchmarkResult_post_init ::
  "('a, 'e, 'x) BenchmarkResult_scheme \<Rightarrow> error + ('a, 'e, 'x) BenchmarkResult_scheme" where
  "BenchmarkResult_post_init r =
     (if result_experiment r \<noteq> None \<and> experiment_storage_id r \<noteq> None then
        Inl (ValueError ''Cannot specify both an `experiment` and an `experiment_storage_id`'')
      else if result_experiment r = None \<and> experiment_storage_id r = None then
        Inl (ValueError ''Must provide an `experiment` or `experiment_storage_id`'')
      else Inr r)"

text \<open>
  Modelled from the spec: the invariant of a \<open>BenchmarkResult\<close> (missing) that all four
  traces have equal length.
\<close>

definition traces_equal_length :: "('a, 'e, 'x) BenchmarkResult_scheme \<Rightarrow> bool" where
  "traces_equal_length r =
     (length (inference_trace r) = length (optimization_trace r)
      \<and> length (oracle_trace r) = length (optimization_trace r)
      \<and> length (score_trace r) = length (optimization_trace r))"

text \<open>
  Modelled from the spec: the aggregation of \<open>AggregatedResult\<close> (missing) truncates the
  traces of the constituent results to the shortest individual trace length;
  \<open>shortest\<close> is that length and \<open>aligned\<close> the truncated traces.
\<close>

definition shortest :: "'a list list \<Rightarrow> nat" where
  "shortest traces = Min (set (map length traces))"

definition aligned :: "'a list list \<Rightarrow> 'a list list" where
  "aligned traces = map (take (shortest traces)) traces"

text \<open>
  Modelled from the spec: the statistics of the aggregation (missing) are computed across
  the results; \<open>per_step traces\<close> lists, for every step, the values that the aligned traces
  have there.
\<close>

definition per_step :: "'a list list \<Rightarrow> 'a list list" where
  "per_step traces = transpose (aligned traces)"

text \<open>
  Modelled from the spec: a summary trace table (missing) has a mean column and the 25th,
  50th and 75th percentile columns. The statistics work on floats and are parameters:
  \<open>mean_of\<close> and \<open>percentile_of q\<close> map the values of one step to one number.
\<close>

record 'b trace_summary =
  mean :: "'b list"
  P25 :: "'b list"
  P50 :: "'b list"
  P75 :: "'b list"

definition summarize ::
  "('a list \<Rightarrow> 'b) \<Rightarrow> (nat \<Rightarrow> 'a list \<Rightarrow> 'b) \<Rightarrow> 'a list list \<Rightarrow> 'b trace_summary" where
  "summarize mean_of percentile_of traces =
     \<lparr>mean = map mean_of (per_step traces),
      P25 = map (percentile_of 25) (per_step traces),
      P50 = map (percentile_of 50) (per_step traces),
      P75 = map (percentile_of 75) (per_step traces)\<rparr>"

text \<open>
  Modelled from the spec: \<open>AggregatedResult\<close> (missing) holds the ordered list of results and
  the summary tables of the optimization trace and of the score trace.
\<close>

record ('a, 'b, 'e) AggregatedResult =
  results :: "('a, 'e) BenchmarkResult list"
  agg_optimization_trace :: "'b trace_summary"
  agg_score_trace :: "'b trace_summary"

definition from_benchmark_results ::
  "('a list \<Rightarrow> 'b) \<Rightarrow> (nat \<Rightarrow> 'a list \<Rightarrow> 'b) \<Rightarrow> ('a, 'e) BenchmarkResult list
     \<Rightarrow> ('a, 'b, 'e) AggregatedResult" where
  "from_benchmark_results mean_of percentile_of rs =
     \<lparr>results = rs,
      agg_optimization_trace = summarize mean_of percentile_of (map optimization_trace rs),
      agg_score_trace = summarize mean_of percentile_of (map score_trace rs)\<rparr>"

text \<open>
  Modelled from the spec: the minimum of \<open>len(r.optimization_trace)\<close> over the results, the
  length that the spec's invariant gives to a summary.
\<close>

definition min_trace_length :: "('a, 'e, 'x) BenchmarkResult_scheme list \<Rightarrow> nat" where
  "min_trace_length rs = Min (set (map (\<lambda>r. length (optimization_trace r)) rs))"

section \<open>Early stopping\<close>

text \<open>
  The threshold strategy (\<open>ax/early_stopping/strategies/threshold.py\<close>) and the scheduling
  loop that polls it are missing from the sources; the definitions of this section follow
  the spec. The data of a trial are its rows of progression and value, in the order
  observed.
\<close>

text \<open>
  Modelled from the spec: the threshold early-stopping strategy (missing), an
  early-stopping strategy with a metric threshold and a minimum progression.
\<close>

record ThresholdEarlyStoppingStrategy = early_stopping_strategy +
  metric_threshold :: real
  min_progression :: nat

type_synonym map_rows = "(nat \<times> real) list"

text \<open>
  Modelled from the spec: the condition of the threshold strategy (missing) on one trial.
  A trial is eligible for stopping once its observed progression reaches
  \<open>min_progression\<close>, and it is stopped when its metric exceeds the threshold (in scenario C
  a value of 0 never stops and a value of 1 or more does, under the threshold 0.5).
\<close>

definition should_stop_trial_early :: "ThresholdEarlyStoppingStrategy \<Rightarrow> map_rows \<Rightarrow> bool" where
  "should_stop_trial_early strategy rows =
     (case rows of
        [] \<Rightarrow> False
      | _ \<Rightarrow> min_progression strategy \<le> fst (last rows)
             \<and> metric_threshold strategy < snd (last rows))"

text \<open>
  Modelled from the spec: \<open>should_stop_trials_early(trial_indices, experiment_data)\<close> of the
  strategy (missing) returns the trial indices to stop.
\<close>

definition should_stop_trials_early ::
  "ThresholdEarlyStoppingStrategy \<Rightarrow> nat list \<Rightarrow> (nat \<Rightarrow> map_rows) \<Rightarrow> nat list" where
  "should_stop_trials_early strategy trial_indices experiment_data =
     filter (\<lambda>i. should_stop_trial_early strategy (experiment_data i)) trial_indices"

text \<open>
  Modelled from the spec: the polling of one running trial by the scheduling loop
  (missing). With \<open>seconds_between_polls = 0\<close> the strategy is checked at every poll, and one
  row accrues per poll, starting at progression 0. \<open>poll_trial strategy value i n rows\<close>
  runs trial \<open>i\<close> for at most \<open>n\<close> more polls from the rows observed so far: each poll
  observes the next progression, where the metric is \<open>value i p\<close>, and asks the strategy.
  It returns the rows observed and whether the trial was stopped early.
\<close>

fun poll_trial ::
  "ThresholdEarlyStoppingStrategy \<Rightarrow> (nat \<Rightarrow> nat \<Rightarrow> real) \<Rightarrow> nat \<Rightarrow> nat \<Rightarrow> map_rows
     \<Rightarrow> map_rows \<times> bool" where
  "poll_trial strategy value i 0 rows = (rows, False)"
| "poll_trial strategy value i (Suc n) rows =
     (let rows' = rows @ [(length rows, value i (length rows))]
      in if i \<in> set (should_stop_trials_early strategy [i] (\<lambda>j. if j = i then rows' else []))
         then (rows', True)
         else poll_trial strategy value i n rows')"

text \<open>
  Modelled from the spec: the strategy of scenario C (threshold 0.5, minimum progression
  2, polled with no delay) and its metric, whose value is the trial index at every
  progression step.
\<close>

definition scenario_strategy :: ThresholdEarlyStoppingStrategy where
  "scenario_strategy =
     \<lparr>seconds_between_polls = 0, metric_threshold = 1 / 2, min_progression = 2\<rparr>"

definition index_value :: "nat \<Rightarrow> nat \<Rightarrow> real" where
  "index_value i p = real i"

section \<open>Example inputs\<close>

text \<open>
  A single-objective config on the metric \<open>f\<close> with one outcome constraint on \<open>c\<close>, and
  problems built on it: a well-formed one, one asking for two best points, a
  multi-objective one that reports the inference trace, and one whose test function does
  not produce \<open>c\<close>.
\<close>

definition example_config :: optimization_config where
  "example_config =
     \<lparr>config_class = OptimizationConfig, objective = Objective (Metric ''f''),
      outcome_constraints = [OutcomeConstraint (Metric ''c'')]\<rparr>"

definition example_moo_config :: optimization_config where
  "example_moo_config =
     \<lparr>config_class = MultiObjectiveOptimizationConfig,
      objective = MultiObjective [Metric ''f'', Metric ''g''],
      outcome_constraints = []\<rparr>"

definition example_problem :: "int BenchmarkProblem" where
  "example_problem =
     \<lparr>problem_name = ''example'', optimization_config = example_config, num_trials = 4,
      test_function = \<lparr>outcome_names = [''f'', ''c'']\<rparr>,
      search_space =
        [RangeParameter ''x0'' False 0, ChoiceParameter ''x1'' False True 1,
         FixedParameter ''x2'' True 2],
      report_inference_value_as_trace = False, n_best_points = 1,
      target_fidelity_and_task = Map.empty\<rparr>"

definition example_problem_two_points :: "int BenchmarkProblem" where
  "example_problem_two_points = example_problem\<lparr>n_best_points := 2\<rparr>"

definition example_problem_moo_trace :: "int BenchmarkProblem" where
  "example_problem_moo_trace =
     example_problem\<lparr>optimization_config := example_moo_config,
       test_function := \<lparr>outcome_names = [''f'', ''g'']\<rparr>,
       report_inference_value_as_trace := True\<rparr>"

definition example_problem_missing_name :: "int BenchmarkProblem" where
  "example_problem_missing_name =
     example_problem\<lparr>test_function := \<lparr>outcome_names = [''f'']\<rparr>\<rparr>"

text \<open>
  A method with an early-stopping strategy that polls every 300 seconds, and stand-ins
  for \<open>_get_best_trial\<close>: one finds trial 3 with parameterization 7, one finds nothing.
\<close>

definition example_method :: BenchmarkMethod where
  "example_method =
     \<lparr>method_name = ''DEFAULT'',
      generation_strategy = \<lparr>generation_strategy_name = ''Sobol''\<rparr>,
      batch_size = 1, distribute_replications = False,
      use_model_predictions_for_best_point = False, run_trials_in_batches = False,
      max_pending_trials = 2,
      early_stopping_strategy = Some \<lparr>seconds_between_polls = 300\<rparr>\<rparr>"

definition best_trial_found ::
  "unit \<Rightarrow> generation_strategy \<Rightarrow> optimization_config \<Rightarrow> bool \<Rightarrow> (int \<times> nat \<times> nat) option" where
  "best_trial_found experiment gs cfg use_model_predictions = Some (3, 7, 0)"

definition no_best_trial ::
  "unit \<Rightarrow> generation_strategy \<Rightarrow> optimization_config \<Rightarrow> bool \<Rightarrow> (int \<times> nat \<times> nat) option" where
  "no_best_trial experiment gs cfg use_model_predictions = None"

text \<open>
  Three results whose traces have lengths 4, 4 and 2 (the second replication of the spec's
  example timed out after two trials), each holding a storage id; a result with both an
  experiment and a storage id, and one with neither. \<open>example_mean\<close> and
  \<open>example_percentile\<close> stand for the statistics.
\<close>

definition example_result :: "real list \<Rightarrow> (real, unit) BenchmarkResult" where
  "example_result trace =
     \<lparr>result_name = ''Sobol'', seed = 0, inference_trace = trace, oracle_trace = trace,
      optimization_trace = trace, score_trace = map (\<lambda>v. 100 - v) trace,
      fit_time = 0, gen_time = 0, result_experiment = None,
      experiment_storage_id = Some ''experiment.json''\<rparr>"

definition example_results :: "(real, unit) BenchmarkResult list" where
  "example_results =
     [example_result [4, 3, 2, 1], example_result [5, 3, 3, 2], example_result [6, 2]]"

definition example_result_both :: "(real, unit) BenchmarkResult" where
  "example_result_both = (example_result [])\<lparr>result_experiment := Some ()\<rparr>"

definition example_result_neither :: "(real, unit) BenchmarkResult" where
  "example_result_neither = (example_result [])\<lparr>experiment_storage_id := None\<rparr>"

definition example_mean :: "real list \<Rightarrow> real" where
  "example_mean vs = sum_list vs / real (length vs)"

definition example_percentile :: "nat \<Rightarrow> real list \<Rightarrow> real" where
  "example_percentile q vs = sort vs ! ((q * (length vs - 1)) div 100)"

section \<open>Properties of the benchmark problem and method\<close>


lemma example_problem_names_produced: "names_produced example_problem"
  by (simp add: names_produced_def example_problem_def example_config_def
      objective_names_def constraint_names_def)

lemma example_problem_missing_name_not_produced:
  "\<not> names_produced example_problem_missing_name"
  by (simp add: names_produced_def example_problem_missing_name_def example_problem_def
      example_config_def objective_names_def constraint_names_def)


text \<open>
  C8. The scheduler options of a method are computed from its fields alone: both polling
  delays are 0, \<open>max_pending_trials\<close> is the method's, and the trial type is \<open>TRIAL\<close> when
  \<open>batch_size\<close> is 1 and \<open>BATCH_TRIAL\<close> otherwise. Constructing a method whose
  early-stopping strategy has \<open>seconds_between_polls > 0\<close> emits one warning and leaves the
  strategy, also as the scheduler options pass it on, with \<open>seconds_between_polls = 0\<close>.
\<close>

theorem scheduler_options_zero_polling:
  "so_init_seconds_between_polls (scheduler_options m) = 0
   \<and> so_min_seconds_before_poll (scheduler_options m) = 0
   \<and> so_max_pending_trials (scheduler_options m) = max_pending_trials m
   \<and> so_trial_type (scheduler_options m) = (if batch_size m = 1 then TRIAL else BATCH_TRIAL)
   \<and> (\<forall>ess. early_stopping_strategy m = Some ess \<and> seconds_between_polls ess > 0 \<longrightarrow>
         snd (BenchmarkMethod_post_init m)
           = [SecondsBetweenPollsWarning (seconds_between_polls ess)]
         \<and> early_stopping_strategy (fst (BenchmarkMethod_post_init m))
             = Some (ess\<lparr>seconds_between_polls := 0\<rparr>)
         \<and> so_early_stopping_strategy (scheduler_options (fst (BenchmarkMethod_post_init m)))
             = Some (ess\<lparr>seconds_between_polls := 0\<rparr>))"
  by (auto simp: scheduler_options_def BenchmarkMethod_post_init_def Let_def)

theorem scheduler_options_zero_polling_witness:
  "snd (BenchmarkMethod_post_init example_method) = [SecondsBetweenPollsWarning 300]
   \<and> early_stopping_strategy (fst (BenchmarkMethod_post_init example_method))
       = Some \<lparr>seconds_between_polls = 0\<rparr>
   \<and> so_early_stopping_strategy
         (scheduler_options (fst (BenchmarkMethod_post_init example_method)))
       = Some \<lparr>seconds_between_polls = 0\<rparr>
   \<and> so_trial_type (scheduler_options example_method) = TRIAL
   \<and> so_max_pending_trials (scheduler_options example_method) = 2"
proof -
  have ess: "early_stopping_strategy example_method = Some \<lparr>seconds_between_polls = 300\<rparr>"
    by (simp add: example_method_def)
  have fields: "batch_size example_method = 1" "max_pending_trials example_method = 2"
    by (simp_all add: example_method_def)
  show ?thesis
    using scheduler_options_zero_polling [of example_method] ess fields by simp
qed

text \<open>
  C9. \<open>get_best_parameters\<close> raises \<open>NotImplementedError\<close> whenever the config is a
  multi-objective one or \<open>n_points\<close> is not 1, whatever \<open>_get_best_trial\<close> would return;
  \<open>_predict\<close> and \<open>_cross_validate\<close> of \<open>RandomModelBridge\<close> raise \<open>NotImplementedError\<close> on
  every input.
\<close>

theorem unsupported_paths_raise:
  "(config_class cfg = MultiObjectiveOptimizationConfig \<or> n_points \<noteq> 1 \<longrightarrow>
      (\<exists>msg. get_best_parameters get_best_trial m experiment cfg n_points
         = Inl (NotImplementedError msg)))
   \<and> (\<exists>msg. predict observation_features = Inl (NotImplementedError msg))
   \<and> (\<exists>msg. cross_validate space cv_training_data cv_test_points use_posterior_predictive
         = Inl (NotImplementedError msg))"
  by (auto simp: get_best_parameters_def predict_def cross_validate_def)

theorem unsupported_paths_raise_witness:
  "(\<exists>msg. get_best_parameters best_trial_found example_method () example_moo_config 1
      = Inl (NotImplementedError msg))
   \<and> (\<exists>msg. get_best_parameters best_trial_found example_method () example_config 2
      = Inl (NotImplementedError msg))"
proof -
  have moo: "config_class example_moo_config = MultiObjectiveOptimizationConfig"
    by (simp add: example_moo_config_def)
  show ?thesis
    using unsupported_paths_raise
        [of example_moo_config 1 best_trial_found example_method "()", THEN conjunct1]
      unsupported_paths_raise
        [of example_config 2 best_trial_found example_method "()", THEN conjunct1] moo
    by simp
qed

text \<open>
  C10. For a single-objective config and \<open>n_points = 1\<close>, \<open>get_best_parameters\<close> raises
  nothing of its own: it returns a list of at most one parameterization, the list of the
  best trial's parameterization when \<open>_get_best_trial\<close> returns a trial, and the empty list
  when it returns \<open>None\<close>.
\<close>

theorem get_best_parameters_supported_case:
  assumes "config_class cfg \<noteq> MultiObjectiveOptimizationConfig" and "n_points = 1"
  shows "(\<exists>ps. get_best_parameters get_best_trial m experiment cfg n_points = Inr ps
            \<and> length ps \<le> 1)
    \<and> (\<forall>i params prediction.
          get_best_trial experiment (generation_strategy m) cfg
            (use_model_predictions_for_best_point m) = Some (i, params, prediction)
          \<longrightarrow> get_best_parameters get_best_trial m experiment cfg n_points = Inr [params])
    \<and> (get_best_trial experiment (generation_strategy m) cfg
          (use_model_predictions_for_best_point m) = None
          \<longrightarrow> get_best_parameters get_best_trial m experiment cfg n_points = Inr [])"
  using assms by (auto simp: get_best_parameters_def split: option.splits)

theorem get_best_parameters_supported_case_witness:
  "get_best_parameters best_trial_found example_method () example_config 1 = Inr [7]
   \<and> get_best_parameters no_best_trial example_method () example_config 1 = Inr []"
proof -
  have soo: "config_class example_config \<noteq> MultiObjectiveOptimizationConfig"
    by (simp add: example_config_def)
  show ?thesis
    using get_best_parameters_supported_case
        [OF soo refl, of best_trial_found example_method "()"]
      get_best_parameters_supported_case
        [OF soo refl, of no_best_trial example_method "()"]
    by (simp add: best_trial_found_def no_best_trial_def)
qed

section \<open>Properties of benchmark results\<close>

text \<open>
  C6. Constructing a \<open>BenchmarkResult\<close> with both an experiment and a storage id raises
  \<open>ValueError\<close>, and so does constructing one with neither; a result whose construction
  succeeds is unchanged and holds exactly one of the two.
\<close>

theorem BenchmarkResult_storage_exclusive:
  "(result_experiment r \<noteq> None \<and> experiment_storage_id r \<noteq> None
      \<longrightarrow> (\<exists>msg. BenchmarkResult_post_init r = Inl (ValueError msg)))
   \<and> (result_experiment r = None \<and> experiment_storage_id r = None
      \<longrightarrow> (\<exists>msg. BenchmarkResult_post_init r = Inl (ValueError msg)))
   \<and> (\<forall>r'. BenchmarkResult_post_init r = Inr r' \<longrightarrow>
         r' = r \<and> (result_experiment r' = None) \<noteq> (experiment_storage_id r' = None))"
  by (auto simp: BenchmarkResult_post_init_def split: if_splits)

theorem BenchmarkResult_storage_exclusive_witness:
  "(\<exists>msg. BenchmarkResult_post_init example_result_both = Inl (ValueError msg))
   \<and> (\<exists>msg. BenchmarkResult_post_init example_result_neither = Inl (ValueError msg))
   \<and> BenchmarkResult_post_init (example_result [1, 2]) = Inr (example_result [1, 2])"
proof -
  have both: "result_experiment example_result_both \<noteq> None
              \<and> experiment_storage_id example_result_both \<noteq> None"
    by (simp add: example_result_both_def example_result_def)
  have neither: "result_experiment example_result_neither = None
              \<and> experiment_storage_id example_result_neither = None"
    by (simp add: example_result_neither_def example_result_def)
  have r1: "\<exists>msg. BenchmarkResult_post_init example_result_both = Inl (ValueError msg)"
    using BenchmarkResult_storage_exclusive [of example_result_both, THEN conjunct1, THEN mp]
      both by simp
  have r2: "\<exists>msg. BenchmarkResult_post_init example_result_neither = Inl (ValueError msg)"
    using BenchmarkResult_storage_exclusive
        [of example_result_neither, THEN conjunct2, THEN conjunct1, THEN mp] neither
    by simp
  have r3: "BenchmarkResult_post_init (example_result [1, 2]) = Inr (example_result [1, 2])"
    by (simp add: BenchmarkResult_post_init_def example_result_def)
  from r1 r2 r3 show ?thesis by (intro conjI)
qed

subsection \<open>Aggregation\<close>

lemma foldr_max_length_const:
  "xs \<noteq> [] \<Longrightarrow> \<forall>x\<in>set xs. length x = n \<Longrightarrow> foldr (\<lambda>x. max (length x)) xs 0 = n"
proof (induction xs)
  case Nil
  then show ?case by simp
next
  case (Cons x xs)
  show ?case
  proof (cases "xs = []")
    case True
    with Cons.prems show ?thesis by simp
  next
    case False
    with Cons show ?thesis by simp
  qed
qed

lemma shortest_le: "t \<in> set traces \<Longrightarrow> shortest traces \<le> length t"
  by (simp add: shortest_def)

lemma length_per_step: "traces \<noteq> [] \<Longrightarrow> length (per_step traces) = shortest traces"
proof -
  assume ne: "traces \<noteq> []"
  have "\<forall>x\<in>set (aligned traces). length x = shortest traces"
    using shortest_le [of _ traces] by (fastforce simp: aligned_def min_def)
  moreover have "aligned traces \<noteq> []" using ne by (simp add: aligned_def)
  ultimately show ?thesis
    by (simp add: per_step_def length_transpose foldr_max_length_const)
qed

lemma length_summarize:
  "traces \<noteq> [] \<Longrightarrow>
   length (mean (summarize mean_of percentile_of traces)) = shortest traces
   \<and> length (P25 (summarize mean_of percentile_of traces)) = shortest traces
   \<and> length (P50 (summarize mean_of percentile_of traces)) = shortest traces
   \<and> length (P75 (summarize mean_of percentile_of traces)) = shortest traces"
  by (simp add: summarize_def length_per_step)

lemma shortest_score:
  "\<forall>r\<in>set rs. traces_equal_length r \<Longrightarrow>
   shortest (map score_trace rs) = shortest (map optimization_trace rs)"
proof -
  assume "\<forall>r\<in>set rs. traces_equal_length r"
  then have "map (length \<circ> score_trace) rs = map (length \<circ> optimization_trace) rs"
    by (simp add: traces_equal_length_def)
  then show ?thesis by (simp add: shortest_def)
qed

text \<open>
  C3. For a non-empty list of results whose traces have one length each, every column
  (mean and percentiles) of the aggregated optimization trace and of the aggregated score
  trace has as many entries as the shortest \<open>optimization_trace\<close> of the results, which
  is at most the length of every result's trace.
\<close>

theorem aggregated_length:
  assumes "rs \<noteq> []" and "\<forall>r\<in>set rs. traces_equal_length r"
  shows "length (mean (agg_optimization_trace (from_benchmark_results mean_of percentile_of rs)))
           = min_trace_length rs
       \<and> length (P25 (agg_optimization_trace (from_benchmark_results mean_of percentile_of rs)))
           = min_trace_length rs
       \<and> length (P50 (agg_optimization_trace (from_benchmark_results mean_of percentile_of rs)))
           = min_trace_length rs
       \<and> length (P75 (agg_optimization_trace (from_benchmark_results mean_of percentile_of rs)))
           = min_trace_length rs
       \<and> length (mean (agg_score_trace (from_benchmark_results mean_of percentile_of rs)))
           = min_trace_length rs
       \<and> length (P25 (agg_score_trace (from_benchmark_results mean_of percentile_of rs)))
           = min_trace_length rs
       \<and> length (P50 (agg_score_trace (from_benchmark_results mean_of percentile_of rs)))
           = min_trace_length rs
       \<and> length (P75 (agg_score_trace (from_benchmark_results mean_of percentile_of rs)))
           = min_trace_length rs
       \<and> (\<forall>r\<in>set rs. min_trace_length rs \<le> length (optimization_trace r))"
proof -
  have le: "\<forall>r\<in>set rs. min_trace_length rs \<le> length (optimization_trace r)"
    by (simp add: min_trace_length_def)
  have ne: "map optimization_trace rs \<noteq> []" "map score_trace rs \<noteq> []"
    using assms(1) by simp_all
  have m: "shortest (map optimization_trace rs) = min_trace_length rs"
    by (simp add: shortest_def min_trace_length_def comp_def)
  have s: "shortest (map score_trace rs) = min_trace_length rs"
    using shortest_score [OF assms(2)] m by simp
  show ?thesis
    using length_summarize [OF ne(1), of mean_of percentile_of]
      length_summarize [OF ne(2), of mean_of percentile_of]
    by (simp add: from_benchmark_results_def m s le)
qed

theorem aggregated_length_witness:
  "map (\<lambda>r. length (optimization_trace r)) example_results = [4, 4, 2]
   \<and> length (mean (agg_optimization_trace
         (from_benchmark_results example_mean example_percentile example_results))) = 2
   \<and> length (P50 (agg_optimization_trace
         (from_benchmark_results example_mean example_percentile example_results))) = 2
   \<and> length (mean (agg_score_trace
         (from_benchmark_results example_mean example_percentile example_results))) = 2
   \<and> length (P75 (agg_score_trace
         (from_benchmark_results example_mean example_percentile example_results))) = 2"
proof -
  have ne: "example_results \<noteq> []" by (simp add: example_results_def)
  have eq: "\<forall>r\<in>set example_results. traces_equal_length r"
    by (simp add: example_results_def example_result_def traces_equal_length_def)
  have lens: "map (\<lambda>r. length (optimization_trace r)) example_results = [4, 4, 2]"
    by (simp add: example_results_def example_result_def)
  have m: "min_trace_length example_results = 2"
    by (simp add: min_trace_length_def lens)
  show ?thesis
    using aggregated_length [OF ne eq, of example_mean example_percentile] lens m by simp
qed

section \<open>Properties of early stopping\<close>

lemma should_stop_trial_early_snoc:
  "should_stop_trial_early strategy (rows @ [(p, v)])
     = (min_progression strategy \<le> p \<and> metric_threshold strategy < v)"
proof -
  have "should_stop_trial_early strategy rs
     = (rs \<noteq> [] \<and> min_progression strategy \<le> fst (last rs)
        \<and> metric_threshold strategy < snd (last rs))" for rs
    by (cases rs) (simp_all add: should_stop_trial_early_def del: last.simps)
  then show ?thesis by simp
qed

lemma stop_iff:
  "i \<in> set (should_stop_trials_early scenario_strategy [i]
       (\<lambda>j. if j = i then rows @ [(p, v)] else []))
   \<longleftrightarrow> 2 \<le> p \<and> 1 / 2 < v"
  by (simp add: should_stop_trials_early_def should_stop_trial_early_snoc
      scenario_strategy_def)

lemma half_less_real: "(1 / 2 < real i) = (1 \<le> i)"
  by auto

lemma poll_trial_step:
  "poll_trial scenario_strategy index_value i (Suc n) rows =
     (if 2 \<le> length rows \<and> 1 \<le> i then (rows @ [(length rows, real i)], True)
      else poll_trial scenario_strategy index_value i n (rows @ [(length rows, real i)]))"
  by (simp add: Let_def stop_iff index_value_def half_less_real)

lemma poll_trial_zero:
  "poll_trial scenario_strategy index_value 0 n rows
     = (rows @ map (\<lambda>p. (p, 0)) [length rows ..< length rows + n], False)"
proof (induction n arbitrary: rows)
  case 0
  show ?case by simp
next
  case (Suc n)
  have "poll_trial scenario_strategy index_value 0 (Suc n) rows
        = poll_trial scenario_strategy index_value 0 n (rows @ [(length rows, 0)])"
    by (simp add: poll_trial_step del: poll_trial.simps)
  also have "\<dots> = ((rows @ [(length rows, 0)]) @
       map (\<lambda>p. (p, 0)) [Suc (length rows) ..< Suc (length rows) + n], False)"
    using Suc.IH [of "rows @ [(length rows, 0)]"] by simp
  also have "\<dots> = (rows @ map (\<lambda>p. (p, 0)) [length rows ..< length rows + Suc n], False)"
    by (simp add: upt_rec [of "length rows"])
  finally show ?case .
qed

text \<open>
  C2. Under the threshold strategy with threshold 0.5 and \<open>min_progression = 2\<close>, polled at
  every progression step, a trial whose metric equals its index everywhere behaves as
  follows: trial 0 is never stopped and observes all \<open>n\<close> steps of its progression; every
  trial with index at least 1 (and a progression of at least 3 steps) is stopped at
  progression 2, after the three rows of progressions 0, 1 and 2.
\<close>

theorem early_stopping_scenario:
  "poll_trial scenario_strategy index_value 0 n [] = (map (\<lambda>p. (p, 0)) [0..<n], False)
   \<and> (1 \<le> i \<and> 3 \<le> n \<longrightarrow>
        poll_trial scenario_strategy index_value i n []
          = ([(0, real i), (1, real i), (2, real i)], True))"
proof -
  have a: "poll_trial scenario_strategy index_value 0 n [] = (map (\<lambda>p. (p, 0)) [0..<n], False)"
    using poll_trial_zero [of n "[]"] by simp
  have b: "poll_trial scenario_strategy index_value i n []
          = ([(0, real i), (1, real i), (2, real i)], True)" if i1: "1 \<le> i" and n3: "3 \<le> n"
  proof -
    obtain m where n: "n = Suc (Suc (Suc m))"
      using n3 by (metis Suc_le_D numeral_3_eq_3 Suc_le_mono)
    show ?thesis
      using i1 by (simp add: n poll_trial_step del: poll_trial.simps)
  qed
  from a b show ?thesis by blast
qed

theorem early_stopping_scenario_witness:
  "poll_trial scenario_strategy index_value 0 5 []
     = ([(0, 0), (1, 0), (2, 0), (3, 0), (4, 0)], False)
   \<and> poll_trial scenario_strategy index_value 1 5 [] = ([(0, 1), (1, 1), (2, 1)], True)
   \<and> poll_trial scenario_strategy index_value 3 5 [] = ([(0, 3), (1, 3), (2, 3)], True)"
proof -
  have u: "[0..<5] = [0, 1, 2, 3, 4::nat]" by (simp add: upt_rec)
  show ?thesis
    using early_stopping_scenario [of 5 1] early_stopping_scenario [of 5 3] u by simp
qed

end
